theory Spec2Isabelle
  imports Complex_Main "HOL-Library.Sublist"
begin

section \<open>Numbers and the Python runtime\<close>

text \<open>
  A \<^verbatim>\<open>Number\<close> leaf holds a Python number. Integers are unbounded and modelled exactly
  as \<^typ>\<open>int\<close>. Every other number (a \<^verbatim>\<open>float\<close>, or the \<^verbatim>\<open>complex\<close> that \<^verbatim>\<open>pow\<close> can
  return) is a value of the type parameter \<open>'f\<close>: its arithmetic belongs to the Python
  runtime, not to this program, and is taken as a parameter (the record \<open>py_runtime\<close>).
\<close>

datatype 'f pnum = PInt int | PFloat 'f

datatype error =
    AssertionError string
  | SyntaxError
  | IndexError
  | ValueError
  | ZeroDivisionError
  | OverflowError
  | AttributeError
  | TypeError
  | RecursionError

datatype ufun =
  Sine | Cosine | Ln | Secant | Tangent | Cosecant | Cotangent | Sqrt | Arcsin | Sign | Abs

datatype binop = Add | Subtract | Multiply | Divide | Power

text \<open>
  The runtime operations the program calls on numbers that are not integers:
  \<^item> \<open>isfloat v\<close>: \<^verbatim>\<open>isinstance(v, float)\<close>;
  \<^item> \<open>eq_ff\<close>, \<open>eq_fi\<close>: \<^verbatim>\<open>==\<close> between two such numbers, and between one and an integer;
  \<^item> \<open>arith op a b\<close>: \<^verbatim>\<open>a + b\<close>, \<^verbatim>\<open>a - b\<close>, \<^verbatim>\<open>a * b\<close>, \<^verbatim>\<open>a / b\<close>, \<^verbatim>\<open>pow(a, b)\<close> where the
    result is not given by integer arithmetic;
  \<^item> \<open>math_call f a\<close>: \<^verbatim>\<open>math.log\<close>, \<^verbatim>\<open>math.sin\<close>, \<^verbatim>\<open>math.cos\<close>, \<^verbatim>\<open>math.tan\<close>, \<^verbatim>\<open>math.sqrt\<close>,
    \<^verbatim>\<open>math.asin\<close> (selected by \<open>Ln\<close>, \<open>Sine\<close>, \<open>Cosine\<close>, \<open>Tangent\<close>, \<open>Sqrt\<close>, \<open>Arcsin\<close>);
  \<^item> \<open>gt_zero v\<close>, \<open>lt_zero v\<close>: \<^verbatim>\<open>v > 0\<close> and \<^verbatim>\<open>v < 0\<close>;
  \<^item> \<open>math_pi\<close>, \<open>math_e\<close>: \<^verbatim>\<open>math.pi\<close> and \<^verbatim>\<open>math.e\<close>;
  \<^item> \<open>str_float v\<close>: \<^verbatim>\<open>str(v)\<close>;
  \<^item> \<open>number_of_token s\<close>: \<^verbatim>\<open>int(s)\<close>, and \<^verbatim>\<open>float(s)\<close> when \<^verbatim>\<open>int(s)\<close> raises, for a
    string \<open>s\<close> that is not a plain run of decimal digits.
\<close>

record 'f py_runtime =
  isfloat :: "'f \<Rightarrow> bool"
  eq_ff :: "'f \<Rightarrow> 'f \<Rightarrow> bool"
  eq_fi :: "'f \<Rightarrow> int \<Rightarrow> bool"
  arith :: "binop \<Rightarrow> 'f pnum \<Rightarrow> 'f pnum \<Rightarrow> error + 'f pnum"
  math_call :: "ufun \<Rightarrow> 'f pnum \<Rightarrow> error + 'f"
  gt_zero :: "'f \<Rightarrow> error + bool"
  lt_zero :: "'f \<Rightarrow> error + bool"
  math_pi :: "'f"
  math_e :: "'f"
  str_float :: "'f \<Rightarrow> string"
  number_of_token :: "string \<Rightarrow> error + 'f pnum"

fun py_eq :: "'f py_runtime \<Rightarrow> 'f pnum \<Rightarrow> 'f pnum \<Rightarrow> bool" where
  "py_eq rt (PInt i) (PInt j) = (i = j)"
| "py_eq rt (PInt i) (PFloat y) = eq_fi rt y i"
| "py_eq rt (PFloat x) (PInt j) = eq_fi rt x j"
| "py_eq rt (PFloat x) (PFloat y) = eq_ff rt x y"

fun py_add :: "'f py_runtime \<Rightarrow> 'f pnum \<Rightarrow> 'f pnum \<Rightarrow> error + 'f pnum" where
  "py_add rt (PInt i) (PInt j) = Inr (PInt (i + j))"
| "py_add rt a b = arith rt Add a b"

fun py_sub :: "'f py_runtime \<Rightarrow> 'f pnum \<Rightarrow> 'f pnum \<Rightarrow> error + 'f pnum" where
  "py_sub rt (PInt i) (PInt j) = Inr (PInt (i - j))"
| "py_sub rt a b = arith rt Subtract a b"

fun py_mul :: "'f py_runtime \<Rightarrow> 'f pnum \<Rightarrow> 'f pnum \<Rightarrow> error + 'f pnum" where
  "py_mul rt (PInt i) (PInt j) = Inr (PInt (i * j))"
| "py_mul rt a b = arith rt Multiply a b"

text \<open>\<^verbatim>\<open>/\<close> is true division: two integers give a float, and a zero divisor raises.\<close>

fun py_truediv :: "'f py_runtime \<Rightarrow> 'f pnum \<Rightarrow> 'f pnum \<Rightarrow> error + 'f pnum" where
  "py_truediv rt (PInt i) (PInt j) =
     (if j = 0 then Inl ZeroDivisionError else arith rt Divide (PInt i) (PInt j))"
| "py_truediv rt a b = arith rt Divide a b"

text \<open>
  \<^verbatim>\<open>pow\<close> of two integers is an integer when the exponent is not negative (\<^verbatim>\<open>pow(0, 0)\<close> is
  1); a negative exponent gives a float, and raises on base 0.
\<close>

fun py_pow :: "'f py_runtime \<Rightarrow> 'f pnum \<Rightarrow> 'f pnum \<Rightarrow> error + 'f pnum" where
  "py_pow rt (PInt i) (PInt j) =
     (if 0 \<le> j then Inr (PInt (i ^ nat j))
      else if i = 0 then Inl ZeroDivisionError
      else arith rt Power (PInt i) (PInt j))"
| "py_pow rt a b = arith rt Power a b"

fun py_gt_zero :: "'f py_runtime \<Rightarrow> 'f pnum \<Rightarrow> error + bool" where
  "py_gt_zero rt (PInt i) = Inr (0 < i)"
| "py_gt_zero rt (PFloat x) = gt_zero rt x"

fun py_lt_zero :: "'f py_runtime \<Rightarrow> 'f pnum \<Rightarrow> error + bool" where
  "py_lt_zero rt (PInt i) = Inr (i < 0)"
| "py_lt_zero rt (PFloat x) = lt_zero rt x"

text \<open>Calling a \<^verbatim>\<open>math\<close> function always yields a float.\<close>

definition py_math :: "'f py_runtime \<Rightarrow> ufun \<Rightarrow> 'f pnum \<Rightarrow> error + 'f pnum" where
  "py_math rt f a = (case math_call rt f a of Inl e \<Rightarrow> Inl e | Inr x \<Rightarrow> Inr (PFloat x))"

section \<open>The syntax tree\<close>

text \<open>
  One constructor for each family of node classes: the leaves \<^verbatim>\<open>Number\<close> and \<^verbatim>\<open>Variable\<close>,
  the subclasses of \<^verbatim>\<open>UnaryFunction\<close>, the prefix operator \<^verbatim>\<open>Negate\<close> and the subclasses
  of \<^verbatim>\<open>BinaryOperator\<close>. The constructors fix the number of children, which the classes
  assert when a node is built.
\<close>

datatype 'f ast =
    Number "'f pnum"
  | Variable string
  | Unary ufun "'f ast"
  | Negate "'f ast"
  | Binary binop "'f ast" "'f ast"

definition NUMBER_0 :: "'f ast" where "NUMBER_0 = Number (PInt 0)"
definition NUMBER_1 :: "'f ast" where "NUMBER_1 = Number (PInt 1)"
definition NUMBER_2 :: "'f ast" where "NUMBER_2 = Number (PInt 2)"

fun children :: "'f ast \<Rightarrow> 'f ast list" where
  "children (Number n) = []"
| "children (Variable s) = []"
| "children (Unary f x) = [x]"
| "children (Negate x) = [x]"
| "children (Binary b x y) = [x, y]"

text \<open>
  \<^verbatim>\<open>Node.__eq__\<close>: equal symbols and equal lists of children. Two nodes of different
  families never have both (a leaf has no children, a unary node has one, a binary node
  two; \<^verbatim>\<open>Negate\<close> shares its symbol with \<^verbatim>\<open>Subtract\<close> only). The symbols of two numbers
  are compared as numbers, so \<^verbatim>\<open>Number(0) == Number(0.0)\<close>. The shortcut Python's list
  comparison takes on identical objects is not modelled: it shows only for a float that
  differs from itself.
\<close>

fun node_eq :: "'f py_runtime \<Rightarrow> 'f ast \<Rightarrow> 'f ast \<Rightarrow> bool" where
  "node_eq rt (Number a) (Number b) = py_eq rt a b"
| "node_eq rt (Variable s) (Variable t) = (s = t)"
| "node_eq rt (Unary f x) (Unary g y) = (f = g \<and> node_eq rt x y)"
| "node_eq rt (Negate x) (Negate y) = node_eq rt x y"
| "node_eq rt (Binary b x y) (Binary c u v) = (b = c \<and> node_eq rt x u \<and> node_eq rt y v)"
| "node_eq rt _ _ = False"

section \<open>Evaluation\<close>

definition default_bindings :: "'f py_runtime \<Rightarrow> (string \<rightharpoonup> 'f pnum)" where
  "default_bindings rt = [''Pi'' \<mapsto> PFloat (math_pi rt), ''E'' \<mapsto> PFloat (math_e rt)]"

fun eval_binop :: "'f py_runtime \<Rightarrow> binop \<Rightarrow> 'f pnum \<Rightarrow> 'f pnum \<Rightarrow> error + 'f pnum" where
  "eval_binop rt Add a b = py_add rt a b"
| "eval_binop rt Subtract a b = py_sub rt a b"
| "eval_binop rt Multiply a b = py_mul rt a b"
| "eval_binop rt Divide a b = py_truediv rt a b"
| "eval_binop rt Power a b = py_pow rt a b"

text \<open>
  The body of each \<^verbatim>\<open>UnaryFunction.evaluate\<close>, applied to the value of the child.
  \<^verbatim>\<open>Abs.evaluate\<close> calls \<^verbatim>\<open>math.abs\<close>, which the \<^verbatim>\<open>math\<close> module does not have: the
  attribute lookup raises before the child is evaluated (see \<open>evaluate\<close>).
\<close>

fun eval_ufun :: "'f py_runtime \<Rightarrow> ufun \<Rightarrow> 'f pnum \<Rightarrow> error + 'f pnum" where
  "eval_ufun rt Secant a =
     (case py_math rt Cosine a of Inl e \<Rightarrow> Inl e | Inr c \<Rightarrow> py_truediv rt (PInt 1) c)"
| "eval_ufun rt Cotangent a =
     (case py_math rt Tangent a of Inl e \<Rightarrow> Inl e | Inr c \<Rightarrow> py_truediv rt (PInt 1) c)"
| "eval_ufun rt Cosecant a =
     (case py_math rt Sine a of Inl e \<Rightarrow> Inl e | Inr c \<Rightarrow> py_truediv rt (PInt 1) c)"
| "eval_ufun rt Sign a =
     (case py_gt_zero rt a of Inl e \<Rightarrow> Inl e
      | Inr True \<Rightarrow> Inr (PInt 1)
      | Inr False \<Rightarrow>
          (case py_lt_zero rt a of Inl e \<Rightarrow> Inl e
           | Inr True \<Rightarrow> Inr (PInt (- 1))
           | Inr False \<Rightarrow> Inr (PInt 0)))"
| "eval_ufun rt Abs a = Inl AttributeError"
| "eval_ufun rt f a = py_math rt f a"

fun evaluate :: "'f py_runtime \<Rightarrow> (string \<rightharpoonup> 'f pnum) \<Rightarrow> 'f ast \<Rightarrow> error + 'f pnum" where
  "evaluate rt bindings (Number n) = Inr n"
| "evaluate rt bindings (Variable s) =
     (case (bindings ++ default_bindings rt) s of
        None \<Rightarrow> Inl (AssertionError ''Cannot evaluate unbound variable'')
      | Some v \<Rightarrow> Inr v)"
| "evaluate rt bindings (Unary f x) =
     (if f = Abs then Inl AttributeError
      else case evaluate rt bindings x of Inl e \<Rightarrow> Inl e | Inr a \<Rightarrow> eval_ufun rt f a)"
| "evaluate rt bindings (Negate x) =
     (case evaluate rt bindings x of Inl e \<Rightarrow> Inl e | Inr a \<Rightarrow> py_mul rt (PInt (- 1)) a)"
| "evaluate rt bindings (Binary b x y) =
     (case evaluate rt bindings x of Inl e \<Rightarrow> Inl e
      | Inr a \<Rightarrow>
          (case evaluate rt bindings y of Inl e \<Rightarrow> Inl e | Inr c \<Rightarrow> eval_binop rt b a c))"

section \<open>Simplification\<close>

text \<open>\<^verbatim>\<open>isinstance(child, Number) and isinstance(child.symbol, float)\<close>\<close>

fun is_float_number :: "'f py_runtime \<Rightarrow> 'f ast \<Rightarrow> bool" where
  "is_float_number rt (Number (PFloat x)) = isfloat rt x"
| "is_float_number rt _ = False"

fun is_Number :: "'f ast \<Rightarrow> bool" where
  "is_Number (Number n) = True"
| "is_Number _ = False"

text \<open>
  \<^verbatim>\<open>Function.simplify\<close> once \<^verbatim>\<open>Node.simplify\<close> has rebuilt the node from its simplified
  children: when every child is a number holding a float, the node is evaluated with the
  default (empty) bindings and the value wrapped in a \<^verbatim>\<open>Number\<close>.
\<close>

definition function_simplify :: "'f py_runtime \<Rightarrow> 'f ast \<Rightarrow> error + 'f ast" where
  "function_simplify rt node =
     (if list_all (is_float_number rt) (children node)
      then (case evaluate rt Map.empty node of Inl e \<Rightarrow> Inl e | Inr v \<Rightarrow> Inr (Number v))
      else Inr node)"

text \<open>
  The identities each \<^verbatim>\<open>simplify\<close> tries on the children \<open>x\<close>, \<open>y\<close> of the rebuilt node,
  in the order of the source.
\<close>

fun binary_rules :: "'f py_runtime \<Rightarrow> binop \<Rightarrow> 'f ast \<Rightarrow> 'f ast \<Rightarrow> 'f ast" where
  "binary_rules rt Add x y =
     (if node_eq rt x NUMBER_0 then y
      else if node_eq rt y NUMBER_0 then x
      else Binary Add x y)"
| "binary_rules rt Multiply x y =
     (if node_eq rt x NUMBER_0 \<or> node_eq rt y NUMBER_0 then NUMBER_0
      else if node_eq rt x NUMBER_1 then y
      else if node_eq rt y NUMBER_1 then x
      else Binary Multiply x y)"
| "binary_rules rt Subtract x y =
     (if node_eq rt x NUMBER_0 then Negate y
      else if node_eq rt y NUMBER_0 then x
      else Binary Subtract x y)"
| "binary_rules rt Divide x y =
     (if node_eq rt x NUMBER_0 then NUMBER_0
      else if node_eq rt y NUMBER_1 then x
      else if node_eq rt x y then NUMBER_1
      else Binary Divide x y)"
| "binary_rules rt Power x y =
     (if node_eq rt x NUMBER_0 \<and> \<not> node_eq rt y NUMBER_0 then NUMBER_0
      else if node_eq rt y NUMBER_0 \<and> \<not> node_eq rt x NUMBER_0 then NUMBER_1
      else if node_eq rt x NUMBER_1 then NUMBER_1
      else if node_eq rt y NUMBER_1 then x
      else Binary Power x y)"

text \<open>Only \<^verbatim>\<open>Ln\<close> overrides \<^verbatim>\<open>simplify\<close> among the unary functions.\<close>

fun unary_rules :: "'f py_runtime \<Rightarrow> ufun \<Rightarrow> 'f ast \<Rightarrow> 'f ast" where
  "unary_rules rt Ln x =
     (if node_eq rt x NUMBER_1 then NUMBER_0
      else if node_eq rt x (Variable ''E'') then NUMBER_1
      else Unary Ln x)"
| "unary_rules rt f x = Unary f x"

fun negate_rules :: "'f py_runtime \<Rightarrow> 'f ast \<Rightarrow> 'f ast" where
  "negate_rules rt (Negate z) = z"
| "negate_rules rt x = (if node_eq rt x NUMBER_0 then x else Negate x)"

fun simplify :: "'f py_runtime \<Rightarrow> 'f ast \<Rightarrow> error + 'f ast" where
  "simplify rt (Number n) = Inr (Number n)"
| "simplify rt (Variable s) = Inr (Variable s)"
| "simplify rt (Unary f x) =
     (case simplify rt x of Inl e \<Rightarrow> Inl e
      | Inr x' \<Rightarrow>
          (case function_simplify rt (Unary f x') of Inl e \<Rightarrow> Inl e
           | Inr s \<Rightarrow> if is_Number s then Inr s else Inr (unary_rules rt f x')))"
| "simplify rt (Negate x) =
     (case simplify rt x of Inl e \<Rightarrow> Inl e
      | Inr x' \<Rightarrow>
          (case function_simplify rt (Negate x') of Inl e \<Rightarrow> Inl e
           | Inr s \<Rightarrow> if is_Number s then Inr s else Inr (negate_rules rt x')))"
| "simplify rt (Binary b x y) =
     (case simplify rt x of Inl e \<Rightarrow> Inl e
      | Inr x' \<Rightarrow>
          (case simplify rt y of Inl e \<Rightarrow> Inl e
           | Inr y' \<Rightarrow>
               (case function_simplify rt (Binary b x' y') of Inl e \<Rightarrow> Inl e
                | Inr s \<Rightarrow> if is_Number s then Inr s else Inr (binary_rules rt b x' y'))))"

section \<open>Differentiation\<close>

text \<open>
  Each rule builds a tree from the derivatives of the children (computed left to right,
  as the arguments of the constructors are) and simplifies it.
\<close>

fun derivative :: "'f py_runtime \<Rightarrow> 'f ast \<Rightarrow> string \<Rightarrow> error + 'f ast" where
  "derivative rt (Number n) v = Inr NUMBER_0"
| "derivative rt (Variable s) v = (if s = v then Inr NUMBER_1 else Inr NUMBER_0)"
| "derivative rt (Binary Add x y) v =
     (case derivative rt x v of Inl e \<Rightarrow> Inl e
      | Inr dx \<Rightarrow>
          (case derivative rt y v of Inl e \<Rightarrow> Inl e
           | Inr dy \<Rightarrow> simplify rt (Binary Add dx dy)))"
| "derivative rt (Binary Multiply x y) v =
     (case derivative rt x v of Inl e \<Rightarrow> Inl e
      | Inr dx \<Rightarrow>
          (case derivative rt y v of Inl e \<Rightarrow> Inl e
           | Inr dy \<Rightarrow>
               simplify rt (Binary Add (Binary Multiply dx y) (Binary Multiply dy x))))"
| "derivative rt (Binary Subtract x y) v =
     (case derivative rt x v of Inl e \<Rightarrow> Inl e
      | Inr dx \<Rightarrow>
          (case derivative rt y v of Inl e \<Rightarrow> Inl e
           | Inr dy \<Rightarrow>
               simplify rt (Binary Subtract (Binary Multiply dx y) (Binary Multiply dy x))))"
| "derivative rt (Binary Divide x y) v =
     (case derivative rt x v of Inl e \<Rightarrow> Inl e
      | Inr dx \<Rightarrow>
          (case derivative rt y v of Inl e \<Rightarrow> Inl e
           | Inr dy \<Rightarrow>
               simplify rt
                 (Binary Divide
                    (Binary Subtract (Binary Multiply dx y) (Binary Multiply dy x))
                    (Binary Power y NUMBER_2))))"
| "derivative rt (Binary Power z y) v =
     (case derivative rt y v of Inl e \<Rightarrow> Inl e
      | Inr dy \<Rightarrow>
          (case derivative rt z v of Inl e \<Rightarrow> Inl e
           | Inr dz \<Rightarrow>
               simplify rt
                 (Binary Multiply (Binary Power z y)
                    (Binary Add (Binary Multiply dy (Unary Ln z))
                       (Binary Divide (Binary Multiply dz y) z)))))"
| "derivative rt (Unary Ln x) v =
     (case derivative rt x v of Inl e \<Rightarrow> Inl e
      | Inr dx \<Rightarrow> simplify rt (Binary Divide dx x))"
| "derivative rt (Unary Sine x) v =
     (case derivative rt x v of Inl e \<Rightarrow> Inl e
      | Inr dx \<Rightarrow> simplify rt (Binary Multiply (Unary Cosine x) dx))"
| "derivative rt (Unary Cosine x) v =
     (case derivative rt x v of Inl e \<Rightarrow> Inl e
      | Inr dx \<Rightarrow> simplify rt (Binary Multiply (Negate (Unary Sine x)) dx))"
| "derivative rt (Unary Tangent x) v =
     (case derivative rt x v of Inl e \<Rightarrow> Inl e
      | Inr dx \<Rightarrow>
          simplify rt (Binary Multiply (Binary Power (Unary Secant x) NUMBER_2) dx))"
| "derivative rt (Unary Secant x) v =
     (case derivative rt x v of Inl e \<Rightarrow> Inl e
      | Inr dx \<Rightarrow>
          simplify rt
            (Binary Multiply (Binary Multiply (Unary Secant x) (Unary Tangent x)) dx))"
| "derivative rt (Unary Cotangent x) v =
     (case derivative rt x v of Inl e \<Rightarrow> Inl e
      | Inr dx \<Rightarrow>
          simplify rt
            (Binary Multiply (Negate (Binary Power (Unary Cosecant x) NUMBER_2)) dx))"
| "derivative rt (Unary Cosecant x) v =
     (case derivative rt x v of Inl e \<Rightarrow> Inl e
      | Inr dx \<Rightarrow>
          simplify rt
            (Binary Multiply
               (Binary Multiply (Negate (Unary Cosecant x)) (Unary Cotangent x)) dx))"
| "derivative rt (Unary Sqrt x) v =
     (case derivative rt x v of Inl e \<Rightarrow> Inl e
      | Inr dx \<Rightarrow>
          simplify rt
            (Binary Multiply
               (Binary Divide NUMBER_1 (Binary Multiply NUMBER_2 (Unary Sqrt x))) dx))"
| "derivative rt (Unary Abs x) v =
     (case derivative rt x v of Inl e \<Rightarrow> Inl e
      | Inr dx \<Rightarrow> simplify rt (Binary Multiply (Unary Sign x) dx))"
| "derivative rt (Unary Sign x) v = Inr NUMBER_0"
| "derivative rt (Unary Arcsin x) v =
     (case derivative rt x v of Inl e \<Rightarrow> Inl e
      | Inr dx \<Rightarrow>
          simplify rt
            (Binary Multiply
               (Binary Divide NUMBER_1
                  (Unary Sqrt (Binary Subtract NUMBER_1 (Binary Power x NUMBER_2))))
               dx))"
| "derivative rt (Negate x) v =
     (case derivative rt x v of Inl e \<Rightarrow> Inl e
      | Inr dx \<Rightarrow> simplify rt (Negate dx))"

section \<open>Rendering\<close>

text \<open>\<^verbatim>\<open>str\<close> of an integer: its decimal digits, after a minus sign when it is negative.\<close>

definition digit_char :: "nat \<Rightarrow> char" where
  "digit_char d = ''0123456789'' ! d"

function str_nat :: "nat \<Rightarrow> string" where
  "str_nat n = (if n < 10 then [digit_char n] else str_nat (n div 10) @ [digit_char (n mod 10)])"
  by pat_completeness auto
termination
  by (relation "measure id") auto

declare str_nat.simps [simp del]

definition str_int :: "int \<Rightarrow> string" where
  "str_int i = (if i < 0 then CHR ''-'' # str_nat (nat (- i)) else str_nat (nat i))"

fun str_number :: "'f py_runtime \<Rightarrow> 'f pnum \<Rightarrow> string" where
  "str_number rt (PInt i) = str_int i"
| "str_number rt (PFloat x) = str_float rt x"

text \<open>The class attributes \<^verbatim>\<open>symbol\<close>, \<^verbatim>\<open>precedence\<close>, the associativity flags and \<^verbatim>\<open>str_spacing\<close>.\<close>

fun ufun_symbol :: "ufun \<Rightarrow> string" where
  "ufun_symbol Sine = ''sin''"
| "ufun_symbol Cosine = ''cos''"
| "ufun_symbol Ln = ''ln''"
| "ufun_symbol Secant = ''sec''"
| "ufun_symbol Tangent = ''tan''"
| "ufun_symbol Cosecant = ''csc''"
| "ufun_symbol Cotangent = ''cot''"
| "ufun_symbol Sqrt = ''sqrt''"
| "ufun_symbol Arcsin = ''arcsin''"
| "ufun_symbol Sign = ''sign''"
| "ufun_symbol Abs = ''abs''"

fun binop_symbol :: "binop \<Rightarrow> string" where
  "binop_symbol Add = ''+''"
| "binop_symbol Subtract = ''-''"
| "binop_symbol Multiply = ''*''"
| "binop_symbol Divide = ''/''"
| "binop_symbol Power = ''^''"

fun binop_precedence :: "binop \<Rightarrow> rat" where
  "binop_precedence Add = 1"
| "binop_precedence Subtract = 1"
| "binop_precedence Multiply = 2"
| "binop_precedence Divide = 2"
| "binop_precedence Power = 3"

fun binop_is_left_associative :: "binop \<Rightarrow> bool" where
  "binop_is_left_associative Power = False"
| "binop_is_left_associative b = True"

fun binop_is_right_associative :: "binop \<Rightarrow> bool" where
  "binop_is_right_associative Subtract = False"
| "binop_is_right_associative Divide = False"
| "binop_is_right_associative b = True"

fun str_spacing :: "binop \<Rightarrow> string" where
  "str_spacing Add = '' ''"
| "str_spacing Subtract = '' ''"
| "str_spacing b = ''''"

definition negate_precedence :: rat where
  "negate_precedence = 5 / 2"

text \<open>The instances of \<^verbatim>\<open>Operator\<close> are the prefix and the binary operators.\<close>

fun is_Operator :: "'f ast \<Rightarrow> bool" where
  "is_Operator (Negate x) = True"
| "is_Operator (Binary b x y) = True"
| "is_Operator _ = False"

text \<open>The \<^verbatim>\<open>precedence\<close> of an operator node (asked of operators only).\<close>

fun node_precedence :: "'f ast \<Rightarrow> rat" where
  "node_precedence (Negate x) = negate_precedence"
| "node_precedence (Binary b x y) = binop_precedence b"
| "node_precedence _ = 0"

text \<open>
  \<^verbatim>\<open>__str__\<close>: \<^verbatim>\<open>Leaf\<close> prints its symbol, \<^verbatim>\<open>Node\<close> (the unary functions) the symbol and
  the child in parentheses, \<^verbatim>\<open>PrefixOperator\<close> and \<^verbatim>\<open>BinaryOperator\<close> wrap a child that is
  an operator according to the precedences.
\<close>

fun to_string :: "'f py_runtime \<Rightarrow> 'f ast \<Rightarrow> string" where
  "to_string rt (Number n) = str_number rt n"
| "to_string rt (Variable s) = s"
| "to_string rt (Unary f x) = ufun_symbol f @ ''('' @ to_string rt x @ '')''"
| "to_string rt (Negate child) =
     (if is_Operator child \<and> negate_precedence > node_precedence child
      then ''-'' @ ''('' @ to_string rt child @ '')''
      else ''-'' @ to_string rt child)"
| "to_string rt (Binary b left right) =
     (let left_str = to_string rt left;
          right_str = to_string rt right;
          left_str =
            (if is_Operator left \<and>
                (node_precedence left < binop_precedence b \<or>
                 (node_precedence left = binop_precedence b \<and> \<not> binop_is_left_associative b))
             then ''('' @ left_str @ '')'' else left_str);
          right_str =
            (if is_Operator right \<and>
                (node_precedence right < binop_precedence b \<or>
                 (node_precedence right = binop_precedence b \<and> \<not> binop_is_right_associative b))
             then ''('' @ right_str @ '')'' else right_str)
      in left_str @ str_spacing b @ binop_symbol b @ str_spacing b @ right_str)"

section \<open>Tokens\<close>

text \<open>
  Character classes by code point: \<^verbatim>\<open>\d\<close> is \<^verbatim>\<open>0\<close> to \<^verbatim>\<open>9\<close> (48 to 57) on the characters a
  \<^typ>\<open>char\<close> can hold, \<^verbatim>\<open>[A-Za-z]\<close> is 65 to 90 and 97 to 122.
\<close>

definition is_digit :: "char \<Rightarrow> bool" where
  "is_digit c = (48 \<le> (of_char c :: nat) \<and> (of_char c :: nat) \<le> 57)"

definition is_alpha :: "char \<Rightarrow> bool" where
  "is_alpha c =
     ((65 \<le> (of_char c :: nat) \<and> (of_char c :: nat) \<le> 90) \<or>
      (97 \<le> (of_char c :: nat) \<and> (of_char c :: nat) \<le> 122))"

text \<open>The characters of \<^verbatim>\<open>BINARY_OPERATOR_REGEXP\<close>.\<close>

definition is_opchar :: "char \<Rightarrow> bool" where
  "is_opchar c = (c \<in> set ''()+-/*^'')"

text \<open>
  \<^verbatim>\<open>re.findall\<close> scans from the left; at each position the alternatives are tried in order
  (one operator character or parenthesis; a number \<^verbatim>\<open>\d+(?:\.\d*)?|\.\d+\<close>; a run of
  letters; the prefix operator, which the first alternative already covers), each
  repetition taking as much as it can, and a character where none matches is skipped.
\<close>

lemma length_dropWhile_tail:
  assumes "y # ys = dropWhile P xs"
  shows "length (dropWhile Q ys) \<le> length xs"
proof -
  have "length (dropWhile Q ys) \<le> length ys"
    by (rule length_dropWhile_le)
  moreover have "length (y # ys) \<le> length xs"
    using assms length_dropWhile_le [of P xs] by simp
  ultimately show ?thesis by simp
qed

function tokenize :: "string \<Rightarrow> string list" where
  "tokenize [] = []"
| "tokenize (c # cs) =
     (if is_opchar c then [c] # tokenize cs
      else if is_digit c then
        (let ds = takeWhile is_digit cs; r = dropWhile is_digit cs in
         case r of
           d # r' \<Rightarrow>
             (if d = CHR ''.''
              then (c # ds @ [d] @ takeWhile is_digit r') # tokenize (dropWhile is_digit r')
              else (c # ds) # tokenize r)
         | [] \<Rightarrow> (c # ds) # tokenize r)
      else if c = CHR ''.'' \<and> cs \<noteq> [] \<and> is_digit (hd cs) then
        (c # takeWhile is_digit cs) # tokenize (dropWhile is_digit cs)
      else if is_alpha c then
        (c # takeWhile is_alpha cs) # tokenize (dropWhile is_alpha cs)
      else tokenize cs)"
  by pat_completeness auto

termination
  by (relation "measure length")
    (auto simp: length_dropWhile_le less_Suc_eq_le intro: length_dropWhile_tail)

declare tokenize.simps [simp del]

section \<open>Parsing\<close>

datatype 'f primitive =
    PNode "'f ast"
  | PUnaryFunction ufun
  | PPrefixOperator
  | PBinaryOperator binop

definition matches_number :: "string \<Rightarrow> bool" where
  "matches_number token =
     (case token of
        [] \<Rightarrow> False
      | c # cs \<Rightarrow> is_digit c \<or> (c = CHR ''.'' \<and> cs \<noteq> [] \<and> is_digit (hd cs)))"

definition matches_binary_operator :: "string \<Rightarrow> bool" where
  "matches_binary_operator token = (token \<noteq> [] \<and> is_opchar (hd token))"

definition matches_prefix_operator :: "string \<Rightarrow> bool" where
  "matches_prefix_operator token = (token \<noteq> [] \<and> hd token = CHR ''-'')"

definition matches_name :: "string \<Rightarrow> bool" where
  "matches_name token = (token \<noteq> [] \<and> is_alpha (hd token))"

definition binary_operators_dict :: "string \<rightharpoonup> binop" where
  "binary_operators_dict =
     map_of [(''+'', Add), (''-'', Subtract), (''*'', Multiply), (''/'', Divide), (''^'', Power)]"

definition unary_functions_dict :: "string \<rightharpoonup> ufun" where
  "unary_functions_dict =
     map_of [(''sin'', Sine), (''cos'', Cosine), (''ln'', Ln), (''sec'', Secant),
       (''tan'', Tangent), (''csc'', Cosecant), (''cot'', Cotangent), (''sqrt'', Sqrt),
       (''arcsin'', Arcsin), (''sign'', Sign), (''abs'', Abs)]"

definition prefix_operators_dict :: "string \<rightharpoonup> unit" where
  "prefix_operators_dict = map_of [(''-'', ())]"

definition digit_value :: "char \<Rightarrow> nat" where
  "digit_value c = of_char c - 48"

definition nat_of_digits :: "string \<Rightarrow> nat" where
  "nat_of_digits s = foldl (\<lambda>n c. 10 * n + digit_value c) 0 s"

definition number_literal :: "'f py_runtime \<Rightarrow> string \<Rightarrow> error + 'f pnum" where
  "number_literal rt token =
     (if list_all is_digit token then Inr (PInt (int (nat_of_digits token)))
      else number_of_token rt token)"

definition parse_primitive :: "'f py_runtime \<Rightarrow> string \<Rightarrow> bool \<Rightarrow> error + 'f primitive" where
  "parse_primitive rt token has_previous =
     (if matches_number token then
        (case number_literal rt token of Inl e \<Rightarrow> Inl e | Inr n \<Rightarrow> Inr (PNode (Number n)))
      else if \<not> has_previous \<and> matches_prefix_operator token \<and> prefix_operators_dict token \<noteq> None
        then Inr PPrefixOperator
      else if matches_binary_operator token \<and> binary_operators_dict token \<noteq> None
        then Inr (PBinaryOperator (the (binary_operators_dict token)))
      else if has_previous \<and> matches_prefix_operator token \<and> prefix_operators_dict token \<noteq> None
        then Inr PPrefixOperator
      else if matches_name token then
        (case unary_functions_dict token of
           Some f \<Rightarrow> Inr (PUnaryFunction f)
         | None \<Rightarrow> Inr (PNode (Variable token)))
      else Inl SyntaxError)"

text \<open>
  The classes passed as \<^verbatim>\<open>limiting_operator\<close>: \<^verbatim>\<open>Operator\<close> itself (precedence 0), \<^verbatim>\<open>Negate\<close>, or a
  binary operator.
\<close>

datatype operator_class = Operator | NegateClass | BinaryClass binop

fun class_precedence :: "operator_class \<Rightarrow> rat" where
  "class_precedence Operator = 0"
| "class_precedence NegateClass = negate_precedence"
| "class_precedence (BinaryClass b) = binop_precedence b"

definition list_insert :: "'a list \<Rightarrow> nat \<Rightarrow> 'a \<Rightarrow> 'a list" where
  "list_insert xs i x = take i xs @ x # drop i xs"

definition continuation ::
  "'f py_runtime \<Rightarrow> string list \<Rightarrow> nat \<Rightarrow> operator_class \<Rightarrow> error + (string list \<times> bool)" where
  "continuation rt tokens new_index limiting_operator =
     (if new_index < length tokens \<and> tokens ! new_index \<noteq> '')'' then
        (case (if tokens ! new_index \<noteq> ''(''
               then (case parse_primitive rt (tokens ! new_index) True of
                       Inl e \<Rightarrow> Inl e | Inr p \<Rightarrow> Inr (Some p))
               else Inr None) of
           Inl e \<Rightarrow> Inl e
         | Inr next_operator \<Rightarrow>
             (let (tokens', next_operator') =
                    (case next_operator of
                       Some (PBinaryOperator b) \<Rightarrow> (tokens, b)
                     | _ \<Rightarrow> (list_insert tokens new_index ''*'', Multiply))
              in Inr (tokens',
                      binop_precedence next_operator' > class_precedence limiting_operator \<or>
                      (binop_is_right_associative next_operator' \<and>
                       \<not> binop_is_left_associative next_operator' \<and>
                       binop_precedence next_operator' = class_precedence limiting_operator))))
      else Inr (tokens, False))"

text \<open>
  \<^verbatim>\<open>parse_partial\<close> is recursive, and it mutates \<^verbatim>\<open>tokens\<close>: the model returns the list
  beside the node and the index, and every later step reads the returned list. The first
  argument bounds the depth of the recursion, as the interpreter's recursion limit does:
  a call that would go deeper raises \<^verbatim>\<open>RecursionError\<close>.
\<close>

fun parse_partial ::
  "nat \<Rightarrow> 'f py_runtime \<Rightarrow> string list \<Rightarrow> nat \<Rightarrow> operator_class \<Rightarrow> 'f ast option
    \<Rightarrow> error + ('f ast \<times> nat \<times> string list)" where
  "parse_partial 0 rt tokens index limiting_operator previous = Inl RecursionError"
| "parse_partial (Suc depth) rt tokens index limiting_operator previous =
     (if length tokens \<le> index then Inl IndexError
      else
        (case (if tokens ! index = ''('' then
                 (case parse_partial depth rt tokens (index + 1) Operator None of
                    Inl e \<Rightarrow> Inl e
                  | Inr (parsed, new_index, tokens1) \<Rightarrow>
                      if new_index < length tokens1 \<and> tokens1 ! new_index = '')''
                      then Inr (PNode parsed, new_index + 1, tokens1)
                      else Inl (AssertionError ''Mismatched parentheses''))
               else
                 (case parse_primitive rt (tokens ! index) (previous \<noteq> None) of
                    Inl e \<Rightarrow> Inl e
                  | Inr p \<Rightarrow> Inr (p, index + 1, tokens))) of
           Inl e \<Rightarrow> Inl e
         | Inr (prim, new_index, tokens1) \<Rightarrow>
             (case (case prim of
                      PNode node \<Rightarrow> Inr (node, new_index, tokens1)
                    | PUnaryFunction f \<Rightarrow>
                        if new_index < length tokens1 \<and> tokens1 ! new_index = ''('' then
                          (case parse_partial depth rt tokens1 (new_index + 1) Operator None of
                             Inl e \<Rightarrow> Inl e
                           | Inr (argument, new_index2, tokens2) \<Rightarrow>
                               if new_index2 < length tokens2 \<and> tokens2 ! new_index2 = '')''
                               then Inr (Unary f argument, new_index2 + 1, tokens2)
                               else Inl (AssertionError
                                 ''Mismatched parentheses in unary function call''))
                        else Inl (AssertionError ''Unary function calls require parentheses'')
                    | PPrefixOperator \<Rightarrow>
                        (case parse_partial depth rt tokens1 new_index NegateClass None of
                           Inl e \<Rightarrow> Inl e
                         | Inr (argument, new_index2, tokens2) \<Rightarrow>
                             Inr (Negate argument, new_index2, tokens2))
                    | PBinaryOperator b \<Rightarrow>
                        (case previous of
                           None \<Rightarrow> Inl (AssertionError ''Binary operator missing first argument'')
                         | Some left \<Rightarrow>
                             (case parse_partial depth rt tokens1 new_index (BinaryClass b)
                                     previous of
                                Inl e \<Rightarrow> Inl e
                              | Inr (next_parsed, new_index2, tokens2) \<Rightarrow>
                                  Inr (Binary b left next_parsed, new_index2, tokens2)))) of
                Inl e \<Rightarrow> Inl e
              | Inr (parsed, new_index2, tokens2) \<Rightarrow>
                  (case continuation rt tokens2 new_index2 limiting_operator of
                     Inl e \<Rightarrow> Inl e
                   | Inr (tokens3, continue) \<Rightarrow>
                       if continue
                       then parse_partial depth rt tokens3 new_index2 limiting_operator
                              (Some parsed)
                       else Inr (parsed, new_index2, tokens3)))))"

text \<open>
  The loop of \<^verbatim>\<open>parse\<close>. It is not known in advance to end, so it is a partial function:
  \<open>None\<close> stands for a loop that runs forever, \<open>Some\<close> for an outcome, an error or the
  last node (none when the loop never ran) with the token list as the parse left it.
\<close>

partial_function (option) parse_loop ::
  "nat \<Rightarrow> 'f py_runtime \<Rightarrow> string list \<Rightarrow> nat \<Rightarrow> 'f ast option
    \<Rightarrow> (error + ('f ast option \<times> string list)) option" where
  "parse_loop depth rt tokens index previous =
     (if index < length tokens then
        (case parse_partial depth rt tokens index Operator previous of
           Inl e \<Rightarrow> Some (Inl e)
         | Inr (parsed, new_index, tokens') \<Rightarrow> parse_loop depth rt tokens' new_index (Some parsed))
      else Some (Inr (previous, tokens)))"

definition parse ::
  "nat \<Rightarrow> 'f py_runtime \<Rightarrow> string list \<Rightarrow> (error + ('f ast option \<times> string list)) option" where
  "parse depth rt tokens = parse_loop depth rt tokens 0 None"

section \<open>A runtime for closed examples\<close>

text \<open>
  The theorems below hold for every runtime \<open>rt\<close>. A closed example needs one: here the
  numbers that are not integers are real numbers with exact arithmetic (no rounding, no
  infinities, no NaN, and no complex numbers: \<^verbatim>\<open>pow\<close> of a negative base to a fractional
  exponent raises instead). \<open>ideal_number_of_token\<close> reads the decimal literals the
  tokenizer produces, \<open>ideal_str_float\<close> prints at most 16 fractional digits.
\<close>

fun real_of_pnum :: "real pnum \<Rightarrow> real" where
  "real_of_pnum (PInt i) = of_int i"
| "real_of_pnum (PFloat x) = x"

fun ideal_arith :: "binop \<Rightarrow> real pnum \<Rightarrow> real pnum \<Rightarrow> error + real pnum" where
  "ideal_arith Add a b = Inr (PFloat (real_of_pnum a + real_of_pnum b))"
| "ideal_arith Subtract a b = Inr (PFloat (real_of_pnum a - real_of_pnum b))"
| "ideal_arith Multiply a b = Inr (PFloat (real_of_pnum a * real_of_pnum b))"
| "ideal_arith Divide a b =
     (if real_of_pnum b = 0 then Inl ZeroDivisionError
      else Inr (PFloat (real_of_pnum a / real_of_pnum b)))"
| "ideal_arith Power a b =
     (let x = real_of_pnum a; y = real_of_pnum b in
      if x = 0 \<and> y < 0 then Inl ZeroDivisionError
      else if y = of_int \<lfloor>y\<rfloor> then
        Inr (PFloat (if 0 \<le> y then x ^ nat \<lfloor>y\<rfloor> else 1 / x ^ nat \<lfloor>- y\<rfloor>))
      else if x < 0 then Inl ValueError
      else Inr (PFloat (x powr y)))"

fun ideal_math_call :: "ufun \<Rightarrow> real pnum \<Rightarrow> error + real" where
  "ideal_math_call Ln a = (if real_of_pnum a \<le> 0 then Inl ValueError else Inr (ln (real_of_pnum a)))"
| "ideal_math_call Sine a = Inr (sin (real_of_pnum a))"
| "ideal_math_call Cosine a = Inr (cos (real_of_pnum a))"
| "ideal_math_call Tangent a = Inr (tan (real_of_pnum a))"
| "ideal_math_call Sqrt a =
     (if real_of_pnum a < 0 then Inl ValueError else Inr (sqrt (real_of_pnum a)))"
| "ideal_math_call Arcsin a =
     (if \<bar>real_of_pnum a\<bar> > 1 then Inl ValueError else Inr (arcsin (real_of_pnum a)))"
| "ideal_math_call f a = Inl AttributeError"

fun frac_digits :: "nat \<Rightarrow> real \<Rightarrow> string" where
  "frac_digits 0 x = []"
| "frac_digits (Suc n) x =
     (if x = 0 then []
      else digit_char (nat \<lfloor>10 * x\<rfloor>) # frac_digits n (10 * x - of_int \<lfloor>10 * x\<rfloor>))"

definition ideal_str_float :: "real \<Rightarrow> string" where
  "ideal_str_float x =
     (if x < 0 then ''-'' else []) @ str_nat (nat \<lfloor>\<bar>x\<bar>\<rfloor>) @ ''.'' @
     (if \<bar>x\<bar> = of_int \<lfloor>\<bar>x\<bar>\<rfloor> then ''0'' else frac_digits 16 (\<bar>x\<bar> - of_int \<lfloor>\<bar>x\<bar>\<rfloor>))"

definition ideal_number_of_token :: "string \<Rightarrow> error + real pnum" where
  "ideal_number_of_token token =
     (let whole = takeWhile is_digit token; rest = dropWhile is_digit token in
      case rest of
        [] \<Rightarrow> Inl ValueError
      | c # fraction \<Rightarrow>
          if c = CHR ''.'' \<and> list_all is_digit fraction \<and> (whole \<noteq> [] \<or> fraction \<noteq> [])
          then Inr (PFloat (real (nat_of_digits whole) +
                 real (nat_of_digits fraction) / 10 ^ length fraction))
          else Inl ValueError)"

definition ideal_runtime :: "real py_runtime" where
  "ideal_runtime =
     \<lparr> isfloat = (\<lambda>x. True),
       eq_ff = (\<lambda>x y. x = y),
       eq_fi = (\<lambda>x i. x = of_int i),
       arith = ideal_arith,
       math_call = ideal_math_call,
       gt_zero = (\<lambda>x. Inr (0 < x)),
       lt_zero = (\<lambda>x. Inr (x < 0)),
       math_pi = pi,
       math_e = exp 1,
       str_float = ideal_str_float,
       number_of_token = ideal_number_of_token \<rparr>"

section \<open>Evaluation rules for concrete inputs\<close>

lemmas char_class_eval = is_opchar_def is_digit_def is_alpha_def

lemmas tokenize_eval = tokenize.simps

lemmas parse_primitive_eval = parse_primitive_def matches_number_def
  matches_binary_operator_def matches_prefix_operator_def matches_name_def
  binary_operators_dict_def unary_functions_dict_def prefix_operators_dict_def
  number_literal_def nat_of_digits_def digit_value_def

lemmas parse_eval = parse_def parse_loop.simps continuation_def list_insert_def
  negate_precedence_def

lemmas simplify_eval = function_simplify_def NUMBER_0_def NUMBER_1_def NUMBER_2_def

lemmas to_string_eval = str_int_def str_nat.simps digit_char_def

section \<open>Evaluation: the built-in constants and unbound variables\<close>

text \<open>
  C5. \<^verbatim>\<open>bindings | default_bindings\<close> lets the right operand win: whatever the caller's
  bindings \<open>b\<close> hold for \<^verbatim>\<open>Pi\<close> and \<^verbatim>\<open>E\<close>, evaluating these variables gives the built-in
  values \<^verbatim>\<open>math.pi\<close> and \<^verbatim>\<open>math.e\<close>.
\<close>

theorem builtin_constants_override:
  "evaluate rt b (Variable ''Pi'') = Inr (PFloat (math_pi rt)) \<and>
   evaluate rt b (Variable ''E'') = Inr (PFloat (math_e rt))"
  by (simp add: default_bindings_def map_add_def)

text \<open>
  C8. A variable whose name is neither bound by the caller nor one of the built-ins
  \<^verbatim>\<open>Pi\<close>, \<^verbatim>\<open>E\<close> fails to evaluate with the assertion "Cannot evaluate unbound variable".
  In particular \<^verbatim>\<open>"y"\<close> tokenizes and parses to the variable \<^verbatim>\<open>y\<close>, whose evaluation with
  empty bindings fails with that error.
\<close>

theorem unbound_variable_fails:
  "(s \<notin> dom b \<and> s \<noteq> ''Pi'' \<and> s \<noteq> ''E'' \<longrightarrow>
      evaluate rt b (Variable s) = Inl (AssertionError ''Cannot evaluate unbound variable'')) \<and>
   parse (Suc depth) rt (tokenize ''y'') = Some (Inr (Some (Variable ''y''), [''y''])) \<and>
   evaluate rt Map.empty (Variable ''y'') =
     Inl (AssertionError ''Cannot evaluate unbound variable'')"
proof (intro conjI impI)
  assume "s \<notin> dom b \<and> s \<noteq> ''Pi'' \<and> s \<noteq> ''E''"
  then show "evaluate rt b (Variable s) =
      Inl (AssertionError ''Cannot evaluate unbound variable'')"
    by (auto simp: default_bindings_def map_add_def domIff split: option.splits)
next
  show "parse (Suc depth) rt (tokenize ''y'') = Some (Inr (Some (Variable ''y''), [''y'']))"
    by (simp add: char_class_eval tokenize_eval parse_primitive_eval parse_eval)
next
  show "evaluate rt Map.empty (Variable ''y'') =
      Inl (AssertionError ''Cannot evaluate unbound variable'')"
    by (simp add: default_bindings_def)
qed

theorem unbound_variable_fails_witness:
  "''z'' \<notin> dom [''x'' \<mapsto> PInt 5] \<and> ''z'' \<noteq> ''Pi'' \<and> ''z'' \<noteq> ''E'' \<and>
   evaluate ideal_runtime [''x'' \<mapsto> PInt 5] (Variable ''z'') =
     Inl (AssertionError ''Cannot evaluate unbound variable'')"
  using unbound_variable_fails [of "''z''" "[''x'' \<mapsto> PInt 5]" ideal_runtime 0]
  by simp

section \<open>Parsing: associativity, the empty input, the mutated token list\<close>

text \<open>
  C7. \<^verbatim>\<open>"2^3^2"\<close> parses as \<^verbatim>\<open>2^(3^2)\<close>, the power operator being right-associative, and
  evaluates with empty bindings to 512 (and so not to 64, the value of \<^verbatim>\<open>(2^3)^2\<close>). The
  parse nests five calls of \<^verbatim>\<open>parse_partial\<close>.
\<close>

theorem power_is_right_associative:
  "parse (Suc (Suc (Suc (Suc (Suc depth))))) rt (tokenize ''2^3^2'') =
     Some (Inr (Some (Binary Power (Number (PInt 2))
                        (Binary Power (Number (PInt 3)) (Number (PInt 2)))),
                [''2'', ''^'', ''3'', ''^'', ''2''])) \<and>
   evaluate rt Map.empty
     (Binary Power (Number (PInt 2)) (Binary Power (Number (PInt 3)) (Number (PInt 2)))) =
     Inr (PInt 512) \<and>
   evaluate rt Map.empty
     (Binary Power (Binary Power (Number (PInt 2)) (Number (PInt 3))) (Number (PInt 2))) =
     Inr (PInt 64)"
  by (simp add: char_class_eval tokenize_eval parse_primitive_eval parse_eval)

text \<open>
  C9. On an empty token list the loop of \<^verbatim>\<open>parse\<close> never runs and \<^verbatim>\<open>parse\<close> returns its
  initial \<^verbatim>\<open>previous\<close>, \<^verbatim>\<open>None\<close>, without an error, whatever the recursion limit; so a
  text in which the tokenizer finds no token gives no tree and no error.
\<close>

theorem parse_empty_is_none:
  "parse depth rt [] = Some (Inr (None, [])) \<and>
   (tokenize s = [] \<longrightarrow> parse depth rt (tokenize s) = Some (Inr (None, [])))"
  by (simp add: parse_eval)

theorem parse_empty_is_none_witness:
  "tokenize ''# !'' = [] \<and> parse 0 ideal_runtime (tokenize ''# !'') = Some (Inr (None, []))"
proof -
  have "tokenize ''# !'' = []"
    by (simp add: char_class_eval tokenize_eval)
  then show ?thesis
    using parse_empty_is_none [of 0 ideal_runtime "''# !''"] by simp
qed

text \<open>
  C10. \<^verbatim>\<open>parse\<close> changes the caller's list. When the token after a parsed node is neither
  \<^verbatim>\<open>)\<close> nor a binary operator, the continuation step inserts \<^verbatim>\<open>*\<close> at that index; the
  list \<^verbatim>\<open>["2", "x"]\<close> is \<^verbatim>\<open>["2", "*", "x"]\<close> when \<^verbatim>\<open>parse\<close> returns.
\<close>

theorem parse_inserts_multiplication_token:
  "(new_index < length tokens \<and>
    tokens ! new_index \<notin> {'')'', ''+'', ''-'', ''*'', ''/'', ''^''} \<and>
    continuation rt tokens new_index limiting_operator = Inr (tokens', continue) \<longrightarrow>
      tokens' = list_insert tokens new_index ''*'') \<and>
   parse (Suc (Suc (Suc depth))) rt [''2'', ''x''] =
     Some (Inr (Some (Binary Multiply (Number (PInt 2)) (Variable ''x'')),
                [''2'', ''*'', ''x'']))"
proof (intro conjI impI)
  assume a: "new_index < length tokens \<and>
    tokens ! new_index \<notin> {'')'', ''+'', ''-'', ''*'', ''/'', ''^''} \<and>
    continuation rt tokens new_index limiting_operator = Inr (tokens', continue)"
  have "p \<noteq> PBinaryOperator c"
    if "parse_primitive rt (tokens ! new_index) True = Inr p" for p c
    using that a
    by (auto simp: parse_primitive_def binary_operators_dict_def
        split: if_splits sum.splits option.splits)
  with a show "tokens' = list_insert tokens new_index ''*''"
    by (auto simp: continuation_def Let_def
        split: if_splits sum.splits option.splits primitive.splits)
next
  show "parse (Suc (Suc (Suc depth))) rt [''2'', ''x''] =
     Some (Inr (Some (Binary Multiply (Number (PInt 2)) (Variable ''x'')),
                [''2'', ''*'', ''x'']))"
    by (simp add: char_class_eval parse_primitive_eval parse_eval)
qed

theorem parse_inserts_multiplication_token_witness:
  "(1::nat) < length [''2'', ''x''] \<and>
   [''2'', ''x''] ! 1 \<notin> {'')'', ''+'', ''-'', ''*'', ''/'', ''^''} \<and>
   continuation ideal_runtime [''2'', ''x''] 1 Operator = Inr ([''2'', ''*'', ''x''], True) \<and>
   [''2'', ''*'', ''x''] = list_insert [''2'', ''x''] 1 ''*''"
proof -
  have c: "continuation ideal_runtime [''2'', ''x''] 1 Operator = Inr ([''2'', ''*'', ''x''], True)"
    by (simp add: char_class_eval parse_primitive_eval parse_eval)
  show ?thesis
    using parse_inserts_multiplication_token
      [of 1 "[''2'', ''x'']" ideal_runtime Operator "[''2'', ''*'', ''x'']" True 0] c
    by simp
qed

section \<open>Differentiation of a difference\<close>

text \<open>
  C1. \<^verbatim>\<open>Subtract.derivative\<close> does not distribute over the two sides: it builds
  \<^verbatim>\<open>x'*y - y'*x\<close>, the numerator of the quotient rule, where \<^verbatim>\<open>Add.derivative\<close> builds
  \<^verbatim>\<open>x' + y'\<close>. For \<^verbatim>\<open>x - y\<close> and the variable \<^verbatim>\<open>x\<close> the two sides have the derivatives 1 and 0,
  whose simplified difference is 1, and the code returns \<^verbatim>\<open>y\<close>.
\<close>

theorem subtract_derivative_at_x_minus_y:
  "derivative rt (Binary Subtract (Variable ''x'') (Variable ''y'')) ''x'' = Inr (Variable ''y'') \<and>
   derivative rt (Variable ''x'') ''x'' = Inr (Number (PInt 1)) \<and>
   derivative rt (Variable ''y'') ''x'' = Inr (Number (PInt 0)) \<and>
   simplify rt (Binary Subtract (Number (PInt 1)) (Number (PInt 0))) = Inr (Number (PInt 1)) \<and>
   derivative rt (Binary Add (Variable ''x'') (Variable ''y'')) ''x'' = Inr (Number (PInt 1))"
  by (simp add: simplify_eval)

section \<open>Constant folding\<close>

text \<open>
  C2, as the claim states it, fails on integers: the children of \<^verbatim>\<open>2 + 3\<close> are numeric
  leaves and the node evaluates to 5, but \<^verbatim>\<open>simplify\<close> returns the node unchanged.
\<close>

theorem integer_children_are_not_folded:
  "simplify ideal_runtime (Number (PInt 2)) = Inr (Number (PInt 2)) \<and>
   simplify ideal_runtime (Number (PInt 3)) = Inr (Number (PInt 3)) \<and>
   evaluate ideal_runtime Map.empty (Binary Add (Number (PInt 2)) (Number (PInt 3))) =
     Inr (PInt 5) \<and>
   simplify ideal_runtime (Binary Add (Number (PInt 2)) (Number (PInt 3))) =
     Inr (Binary Add (Number (PInt 2)) (Number (PInt 3))) \<and>
   simplify ideal_runtime (Binary Add (Number (PInt 2)) (Number (PInt 3))) \<noteq>
     Inr (Number (PInt 5))"
  by (simp add: simplify_eval)

text \<open>
  C2, amended. The fold is guarded by \<^verbatim>\<open>isinstance(child.symbol, float)\<close>. When every
  simplified child is a number holding a float, \<^verbatim>\<open>simplify\<close> returns the number obtained
  by evaluating the rebuilt node with empty bindings, and fails when that evaluation
  fails. When some simplified child is anything else, an integer number included, the
  node is not evaluated: the result is what the identities of its kind give.
\<close>

theorem simplify_folds_float_children:
  "(simplify rt x = Inr (Number (PFloat a)) \<and> isfloat rt a \<and>
    simplify rt y = Inr (Number (PFloat c)) \<and> isfloat rt c \<longrightarrow>
      simplify rt (Binary b x y) =
        (case evaluate rt Map.empty (Binary b (Number (PFloat a)) (Number (PFloat c))) of
           Inl e \<Rightarrow> Inl e | Inr v \<Rightarrow> Inr (Number v))) \<and>
   (simplify rt x = Inr (Number (PFloat a)) \<and> isfloat rt a \<longrightarrow>
      simplify rt (Unary f x) =
        (case evaluate rt Map.empty (Unary f (Number (PFloat a))) of
           Inl e \<Rightarrow> Inl e | Inr v \<Rightarrow> Inr (Number v))) \<and>
   (simplify rt x = Inr (Number (PFloat a)) \<and> isfloat rt a \<longrightarrow>
      simplify rt (Negate x) =
        (case evaluate rt Map.empty (Negate (Number (PFloat a))) of
           Inl e \<Rightarrow> Inl e | Inr v \<Rightarrow> Inr (Number v))) \<and>
   (simplify rt x = Inr x' \<and> simplify rt y = Inr y' \<and>
    \<not> (is_float_number rt x' \<and> is_float_number rt y') \<longrightarrow>
      simplify rt (Binary b x y) = Inr (binary_rules rt b x' y')) \<and>
   (simplify rt x = Inr x' \<and> \<not> is_float_number rt x' \<longrightarrow>
      simplify rt (Unary f x) = Inr (unary_rules rt f x')) \<and>
   (simplify rt x = Inr x' \<and> \<not> is_float_number rt x' \<longrightarrow>
      simplify rt (Negate x) = Inr (negate_rules rt x'))"
  by (auto simp: function_simplify_def split: sum.splits)

theorem simplify_folds_float_children_witness:
  "simplify ideal_runtime (Number (PFloat (3 / 2))) = Inr (Number (PFloat (3 / 2))) \<and>
   isfloat ideal_runtime (3 / 2) \<and>
   simplify ideal_runtime (Number (PFloat (5 / 2))) = Inr (Number (PFloat (5 / 2))) \<and>
   isfloat ideal_runtime (5 / 2) \<and>
   simplify ideal_runtime
     (Binary Add (Number (PFloat (3 / 2))) (Number (PFloat (5 / 2)))) =
     Inr (Number (PFloat 4)) \<and>
   simplify ideal_runtime (Unary Sign (Number (PFloat (3 / 2)))) = Inr (Number (PInt 1)) \<and>
   simplify ideal_runtime (Negate (Number (PFloat (3 / 2)))) =
     Inr (Number (PFloat (- (3 / 2)))) \<and>
   simplify ideal_runtime (Variable ''x'') = Inr (Variable ''x'') \<and>
   \<not> is_float_number ideal_runtime (Variable ''x'') \<and>
   simplify ideal_runtime (Binary Add (Variable ''x'') (Number (PFloat (5 / 2)))) =
     Inr (Binary Add (Variable ''x'') (Number (PFloat (5 / 2)))) \<and>
   simplify ideal_runtime (Unary Sine (Variable ''x'')) = Inr (Unary Sine (Variable ''x'')) \<and>
   simplify ideal_runtime (Negate (Variable ''x'')) = Inr (Negate (Variable ''x''))"
  using
    simplify_folds_float_children
      [of ideal_runtime "Number (PFloat (3 / 2))" "3 / 2" "Number (PFloat (5 / 2))" "5 / 2"
        Add Sign "Number (PFloat (3 / 2))" "Number (PFloat (5 / 2))"]
    simplify_folds_float_children
      [of ideal_runtime "Variable ''x''" "3 / 2" "Number (PFloat (5 / 2))" "5 / 2"
        Add Sine "Variable ''x''" "Number (PFloat (5 / 2))"]
  by (simp add: ideal_runtime_def NUMBER_0_def py_math_def)

section \<open>The derivative of a power\<close>

text \<open>
  C4, as the claim states it, fails: the simplified derivative of \<^verbatim>\<open>x^2\<close> does not render
  as \<^verbatim>\<open>2*x\<close>.
\<close>

theorem derivative_of_square_is_not_rendered_2x:
  "parse (Suc (Suc (Suc 0))) ideal_runtime (tokenize ''x^2'') =
     Some (Inr (Some (Binary Power (Variable ''x'') (Number (PInt 2))), [''x'', ''^'', ''2''])) \<and>
   derivative ideal_runtime (Binary Power (Variable ''x'') (Number (PInt 2))) ''x'' =
     Inr (Binary Multiply (Binary Power (Variable ''x'') (Number (PInt 2)))
            (Binary Divide (Number (PInt 2)) (Variable ''x''))) \<and>
   simplify ideal_runtime
     (Binary Multiply (Binary Power (Variable ''x'') (Number (PInt 2)))
        (Binary Divide (Number (PInt 2)) (Variable ''x''))) =
     Inr (Binary Multiply (Binary Power (Variable ''x'') (Number (PInt 2)))
            (Binary Divide (Number (PInt 2)) (Variable ''x''))) \<and>
   to_string ideal_runtime
     (Binary Multiply (Binary Power (Variable ''x'') (Number (PInt 2)))
        (Binary Divide (Number (PInt 2)) (Variable ''x''))) \<noteq> ''2*x''"
  by (simp add: char_class_eval tokenize_eval parse_primitive_eval parse_eval simplify_eval
      to_string_eval)

text \<open>
  C4, amended. \<^verbatim>\<open>Power.derivative\<close> uses the general rule
  \<^verbatim>\<open>z^y * (y' * ln(z) + z' * y / z)\<close>; for \<^verbatim>\<open>x^2\<close> this is \<^verbatim>\<open>x^2 * (0 * ln(x) + 1 * 2 / x)\<close>, which
  the identities reduce to \<^verbatim>\<open>x^2 * (2 / x)\<close> and no further (no rule combines a power with a
  quotient). Simplifying again changes nothing, and the tree renders as \<^verbatim>\<open>x^2*2/x\<close>.
\<close>

theorem derivative_of_square_rendering:
  "parse (Suc (Suc (Suc depth))) rt (tokenize ''x^2'') =
     Some (Inr (Some (Binary Power (Variable ''x'') (Number (PInt 2))), [''x'', ''^'', ''2''])) \<and>
   derivative rt (Binary Power (Variable ''x'') (Number (PInt 2))) ''x'' =
     Inr (Binary Multiply (Binary Power (Variable ''x'') (Number (PInt 2)))
            (Binary Divide (Number (PInt 2)) (Variable ''x''))) \<and>
   simplify rt
     (Binary Multiply (Binary Power (Variable ''x'') (Number (PInt 2)))
        (Binary Divide (Number (PInt 2)) (Variable ''x''))) =
     Inr (Binary Multiply (Binary Power (Variable ''x'') (Number (PInt 2)))
            (Binary Divide (Number (PInt 2)) (Variable ''x''))) \<and>
   to_string rt
     (Binary Multiply (Binary Power (Variable ''x'') (Number (PInt 2)))
        (Binary Divide (Number (PInt 2)) (Variable ''x''))) = ''x^2*2/x''"
  by (simp add: char_class_eval tokenize_eval parse_primitive_eval parse_eval simplify_eval
      to_string_eval)

section \<open>Idempotence of simplification\<close>

text \<open>
  C3. Simplifying twice should give what simplifying once gives. The code breaks this in
  one place: \<^verbatim>\<open>Subtract.simplify\<close> rewrites \<^verbatim>\<open>0 - y\<close> to a freshly built \<^verbatim>\<open>Negate([y])\<close> and
  returns it without simplifying it, where every other identity returns a child that is
  already simplified, a literal, or the rebuilt node, and where \<^verbatim>\<open>Negate.simplify\<close> itself
  cancels a double negation and reduces \<^verbatim>\<open>-0\<close>. So \<^verbatim>\<open>0 - (-x)\<close> simplifies to \<^verbatim>\<open>--x\<close>, which
  simplifies to \<^verbatim>\<open>x\<close>, and \<^verbatim>\<open>0 - 0\<close> simplifies to \<^verbatim>\<open>-0\<close>, which simplifies to \<^verbatim>\<open>0\<close>; in both
  cases the two results are not equal under \<^verbatim>\<open>==\<close>.
\<close>

theorem subtract_zero_rewrite_is_not_simplified:
  "simplify rt (Binary Subtract (Number (PInt 0)) (Negate (Variable ''x''))) =
     Inr (Negate (Negate (Variable ''x''))) \<and>
   simplify rt (Negate (Negate (Variable ''x''))) = Inr (Variable ''x'') \<and>
   \<not> node_eq rt (Variable ''x'') (Negate (Negate (Variable ''x''))) \<and>
   simplify rt (Binary Subtract (Number (PInt 0)) (Number (PInt 0))) =
     Inr (Negate (Number (PInt 0))) \<and>
   simplify rt (Negate (Number (PInt 0))) = Inr (Number (PInt 0)) \<and>
   \<not> node_eq rt (Number (PInt 0)) (Negate (Number (PInt 0)))"
  by (simp add: simplify_eval)

section \<open>Rendering and parsing back\<close>


text \<open>
  Three more shapes do not come back. A negation that is an unparenthesised right operand
  is read as a subtraction whose left operand is the left operand of the enclosing
  operator (the classifier tries the binary operators before it falls back on the prefix
  operator): \<^verbatim>\<open>x - -y\<close> is parsed as \<^verbatim>\<open>x - (x - y)\<close>. A negative number is printed with its
  sign and read as a negation. A variable that bears the name of a unary function is read
  as that function, which then lacks its parentheses.
\<close>

lemma round_trip_fails_elsewhere:
  "to_string ideal_runtime (Binary Subtract (Variable ''x'') (Negate (Variable ''y''))) =
     ''x - -y'' \<and>
   parse (Suc (Suc (Suc (Suc (Suc 0))))) ideal_runtime (tokenize ''x - -y'') =
     Some (Inr (Some (Binary Subtract (Variable ''x'')
                        (Binary Subtract (Variable ''x'') (Variable ''y''))),
                [''x'', ''-'', ''-'', ''y''])) \<and>
   to_string ideal_runtime (Number (PInt (- 3))) = ''-3'' \<and>
   parse (Suc (Suc (Suc 0))) ideal_runtime (tokenize ''-3'') =
     Some (Inr (Some (Negate (Number (PInt 3))), [''-'', ''3''])) \<and>
   to_string ideal_runtime (Variable ''sin'') = ''sin'' \<and>
   parse (Suc (Suc (Suc 0))) ideal_runtime (tokenize ''sin'') =
     Some (Inl (AssertionError ''Unary function calls require parentheses''))"
  by (simp add: char_class_eval tokenize_eval parse_primitive_eval parse_eval to_string_eval)

subsection \<open>The trees that come back\<close>

text \<open>
  The conditions under which \<^verbatim>\<open>__str__\<close> wraps a child: the left and the right child of a
  binary operator (an operator of lower precedence, or of equal precedence where the
  parent is not associative on that side) and the operand of the prefix operator (an
  operator of strictly lower precedence).
\<close>

definition wraps_child :: "rat \<Rightarrow> bool \<Rightarrow> 'f ast \<Rightarrow> bool" where
  "wraps_child parent_precedence associative_on_side child =
     (is_Operator child \<and>
      (node_precedence child < parent_precedence \<or>
       (node_precedence child = parent_precedence \<and> \<not> associative_on_side)))"

definition wraps_left :: "binop \<Rightarrow> 'f ast \<Rightarrow> bool" where
  "wraps_left b l = wraps_child (binop_precedence b) (binop_is_left_associative b) l"

definition wraps_right :: "binop \<Rightarrow> 'f ast \<Rightarrow> bool" where
  "wraps_right b r = wraps_child (binop_precedence b) (binop_is_right_associative b) r"

definition wraps_operand :: "'f ast \<Rightarrow> bool" where
  "wraps_operand c = (is_Operator c \<and> node_precedence c < negate_precedence)"

lemma to_string_wraps:
  "to_string rt (Binary b l r) =
     (if wraps_left b l then ''('' @ to_string rt l @ '')'' else to_string rt l) @
     str_spacing b @ binop_symbol b @ str_spacing b @
     (if wraps_right b r then ''('' @ to_string rt r @ '')'' else to_string rt r)"
  "to_string rt (Negate c) =
     ''-'' @ (if wraps_operand c then ''('' @ to_string rt c @ '')'' else to_string rt c)"
  by (simp_all add: Let_def wraps_left_def wraps_right_def wraps_child_def wraps_operand_def)




text \<open>
  The recursion depth the parse of a rendering uses: \<open>chain t\<close> counts the calls that
  follow one another along the operators at the top of \<open>t\<close> (each continues the previous
  one by a call in tail position), \<open>depth_needed t\<close> adds what the operands need.
\<close>

fun chain :: "'f ast \<Rightarrow> nat" where
  "chain (Binary b l r) = (if wraps_left b l then 2 else Suc (chain l))"
| "chain _ = 1"

fun depth_needed :: "'f ast \<Rightarrow> nat" where
  "depth_needed (Number n) = 1"
| "depth_needed (Variable s) = 1"
| "depth_needed (Unary f x) = Suc (depth_needed x)"
| "depth_needed (Negate c) = (if wraps_operand c then Suc (Suc (depth_needed c)) else Suc (depth_needed c))"
| "depth_needed (Binary b l r) =
     max (if wraps_left b l then Suc (depth_needed l) else depth_needed l)
         (chain (Binary b l r) + (if wraps_right b r then Suc (depth_needed r) else depth_needed r))"

subsection \<open>One call of the parser\<close>



















subsection \<open>The tokens of a rendering\<close>















subsection \<open>Parsing a rendering\<close>



lemma chain_pos: "0 < chain t"
  by (cases t) auto

lemma chain_le_need: "chain t \<le> depth_needed t"
  by (induction t) auto


















lemma binop_precedence_cases:
  "binop_precedence b = 1 \<or> binop_precedence b = 2 \<or> binop_precedence b = 3"
  by (cases b) simp_all















end
